theory Spec2Isabelle
  imports Main
begin

section \<open>The script \<^verbatim>\<open>hello.py\<close>\<close>

text \<open>
  The script imports the class \<^verbatim>\<open>LayoutPDFReader\<close> of a third-party library, defines
  the functions \<^verbatim>\<open>read_pdf\<close> and \<^verbatim>\<open>greetings\<close>, calls \<^verbatim>\<open>read_pdf("")\<close> and prints
  the result.

  The class is not part of the repository, so its constructor is a parameter of the model:
  a function from the URL it is given to either the exception it raises (\<open>Inl\<close>) or the
  object it builds (\<open>Inr\<close>). The model describes the runs in which the import of line 1
  has bound that name.
\<close>

subsection \<open>The world outside the script\<close>

text \<open>
  What the script can do to its environment: call into the client library, and write to
  standard output. \<open>Construct url\<close> is the call \<^verbatim>\<open>LayoutPDFReader(url)\<close>;
  \<open>Read_pdf url\<close> is the client's method \<^verbatim>\<open>pdf_reader.read_pdf(url)\<close>, the
  operation that contacts the parsing service.
\<close>

datatype call = Construct string | Read_pdf string

record world =
  calls :: "call list"
  stdout :: string

text \<open>
  A Python computation: it starts in a world and ends in one, either raising an exception
  or returning a value. An exception that nothing catches skips the rest of the
  computation.
\<close>

type_synonym ('e, 'a) py = "world \<Rightarrow> ('e + 'a) \<times> world"

definition returnP :: "'a \<Rightarrow> ('e, 'a) py" where
  "returnP v w = (Inr v, w)"

definition bindP :: "('e, 'a) py \<Rightarrow> ('a \<Rightarrow> ('e, 'b) py) \<Rightarrow> ('e, 'b) py" where
  "bindP m f w = (case m w of (Inl e, w') \<Rightarrow> (Inl e, w') | (Inr v, w') \<Rightarrow> f v w')"

text \<open>The calls a computation makes when it is run from the world \<open>w\<close>.\<close>

definition performed :: "('e, 'a) py \<Rightarrow> world \<Rightarrow> call list" where
  "performed m w = drop (length (calls w)) (calls (snd (m w)))"

subsection \<open>Built-ins and the client library\<close>

text \<open>
  Calling the constructor: the call is made (and recorded) whether the constructor returns
  or raises.
\<close>

definition call_constructor :: "(string \<Rightarrow> 'e + 'r) \<Rightarrow> string \<Rightarrow> ('e, 'r) py" where
  "call_constructor LayoutPDFReader url w =
     (LayoutPDFReader url, w\<lparr>calls := calls w @ [Construct url]\<rparr>)"

text \<open>\<^verbatim>\<open>print(s)\<close> for a string: the string and a line feed go to standard output.\<close>

definition newline :: char where
  "newline = CHR 0x0A"

definition print :: "string \<Rightarrow> ('e, unit) py" where
  "print s w = (Inr (), w\<lparr>stdout := stdout w @ s @ [newline]\<rparr>)"

text \<open>
  An f-string is a sequence of literal pieces and formatted values, joined in order. A
  formatted value with no conversion and no format specification is \<^verbatim>\<open>format(v, "")\<close>,
  which for a string is the string itself.
\<close>

datatype fpart = Constant string | FormattedValue string

fun format_part :: "fpart \<Rightarrow> string" where
  "format_part (Constant s) = s"
| "format_part (FormattedValue v) = v"

definition JoinedStr :: "fpart list \<Rightarrow> string" where
  "JoinedStr ps = concat (map format_part ps)"

subsection \<open>The functions of the script\<close>

text \<open>
  \<^verbatim>\<open>
  def read_pdf(path: str) -> str:
      llmsherpa_api_url = "https://readers.llmsherpa.com/api/document/developer/parseDocument?renderFormat=all"
      # pdf_url = ...
      pdf_reader = LayoutPDFReader(llmsherpa_api_url)
      # doc = pdf_reader.read_pdf(pdf_url)
      return "success"
  \<close>
  The two commented lines execute nothing.
\<close>

definition llmsherpa_api_url :: string where
  "llmsherpa_api_url =
     ''https://readers.llmsherpa.com/api/document/developer/parseDocument?renderFormat=all''"

definition read_pdf :: "(string \<Rightarrow> 'e + 'r) \<Rightarrow> string \<Rightarrow> ('e, string) py" where
  "read_pdf LayoutPDFReader path =
     bindP (call_constructor LayoutPDFReader llmsherpa_api_url) (\<lambda>pdf_reader.
     returnP ''success'')"

text \<open>
  \<^verbatim>\<open>
  def greetings(name: str) -> str:
      return f"Hello, {name}!"
  \<close>
\<close>

definition greetings :: "string \<Rightarrow> ('e, string) py" where
  "greetings name =
     returnP (JoinedStr [Constant ''Hello, '', FormattedValue name, Constant ''!''])"

text \<open>
  The statements at module level:
  \<^verbatim>\<open>
  res = read_pdf("")
  print(res)
  \<close>
\<close>

definition script :: "(string \<Rightarrow> 'e + 'r) \<Rightarrow> ('e, unit) py" where
  "script LayoutPDFReader =
     bindP (read_pdf LayoutPDFReader '''') (\<lambda>res.
     print res)"

subsection \<open>Concrete environments\<close>

text \<open>
  A fresh process, and two stand-ins for the constructor: one that builds an object
  holding the URL, and one that raises.
\<close>

definition fresh :: world where
  "fresh = \<lparr>calls = [], stdout = []\<rparr>"

datatype reader = Reader string

datatype exn = ValueError string

definition reader_ok :: "string \<Rightarrow> exn + reader" where
  "reader_ok url = Inr (Reader url)"

definition reader_raises :: "string \<Rightarrow> exn + reader" where
  "reader_raises url = Inl (ValueError url)"

section \<open>Properties\<close>

subsection \<open>What the functions compute\<close>

lemma read_pdf_run:
  "read_pdf LayoutPDFReader path w =
     (case LayoutPDFReader llmsherpa_api_url of
        Inl e \<Rightarrow> Inl e
      | Inr pdf_reader \<Rightarrow> Inr ''success'',
      w\<lparr>calls := calls w @ [Construct llmsherpa_api_url]\<rparr>)"
  by (simp add: read_pdf_def bindP_def call_constructor_def returnP_def split: sum.split)

lemma greetings_run:
  "greetings name w = (Inr (''Hello, '' @ name @ ''!''), w)"
  by (simp add: greetings_def returnP_def JoinedStr_def)

lemma script_run:
  "script LayoutPDFReader w =
     (case LayoutPDFReader llmsherpa_api_url of
        Inl e \<Rightarrow> (Inl e, w\<lparr>calls := calls w @ [Construct llmsherpa_api_url]\<rparr>)
      | Inr pdf_reader \<Rightarrow>
          (Inr (), w\<lparr>calls := calls w @ [Construct llmsherpa_api_url],
                      stdout := stdout w @ ''success'' @ [newline]\<rparr>))"
  by (simp add: script_def bindP_def read_pdf_run print_def split: sum.split)

subsection \<open>\<^verbatim>\<open>greetings\<close>: the value returned\<close>

text \<open>
  C1: for every string \<open>s\<close>, \<^verbatim>\<open>greetings(s)\<close> returns exactly the string
  \<^verbatim>\<open>"Hello, " + s + "!"\<close>; in particular \<^verbatim>\<open>greetings("World")\<close> is
  \<^verbatim>\<open>"Hello, World!"\<close> and \<^verbatim>\<open>greetings("")\<close> is \<^verbatim>\<open>"Hello, !"\<close>.
  Strings are lists of characters; nothing below depends on which characters there are.
\<close>

theorem greetings_returns_hello:
  "fst (greetings s w) = Inr (''Hello, '' @ s @ ''!'')
   \<and> fst (greetings ''World'' w) = Inr ''Hello, World!''
   \<and> fst (greetings '''' w) = Inr ''Hello, !''"
  by (simp add: greetings_run)

subsection \<open>\<^verbatim>\<open>read_pdf\<close>: the value returned\<close>

text \<open>
  C2: for every string \<open>p\<close>, the empty string included, \<^verbatim>\<open>read_pdf(p)\<close> returns
  exactly the string \<^verbatim>\<open>"success"\<close>. The function first calls the constructor of the
  client, which is outside the script; the statement is for an environment in which that
  call, on the fixed URL, returns an object.
\<close>

theorem read_pdf_returns_success:
  assumes "LayoutPDFReader llmsherpa_api_url = Inr pdf_reader"
  shows "fst (read_pdf LayoutPDFReader p w) = Inr ''success''"
  using assms by (simp add: read_pdf_run)

theorem read_pdf_returns_success_witness:
  "reader_ok llmsherpa_api_url = Inr (Reader llmsherpa_api_url)
   \<and> fst (read_pdf reader_ok '''' fresh) = Inr ''success''
   \<and> fst (read_pdf reader_ok ''/tmp/any.pdf'' fresh) = Inr ''success''"
proof -
  have ok: "reader_ok llmsherpa_api_url = Inr (Reader llmsherpa_api_url)"
    by (simp add: reader_ok_def)
  show ?thesis
    using ok
      read_pdf_returns_success
        [where LayoutPDFReader = reader_ok and p = "''''" and w = fresh, OF ok]
      read_pdf_returns_success
        [where LayoutPDFReader = reader_ok and p = "''/tmp/any.pdf''" and w = fresh, OF ok]
    by simp
qed

subsection \<open>Running the script\<close>

text \<open>
  C3: running the script calls \<^verbatim>\<open>read_pdf\<close> with the empty string and prints the
  value it returns to standard output, which produces exactly the line \<^verbatim>\<open>success\<close>.
  As for C2, the constructor of the client is taken to return an object. The script ends
  normally, and what it adds to standard output is \<^verbatim>\<open>success\<close> followed by a line feed:
  it is what \<^verbatim>\<open>print\<close> writes for the value \<^verbatim>\<open>read_pdf("")\<close> returned, in the world
  that call left.
\<close>

theorem script_prints_success:
  assumes "LayoutPDFReader llmsherpa_api_url = Inr pdf_reader"
  shows "fst (read_pdf LayoutPDFReader '''' w) = Inr ''success''
   \<and> script LayoutPDFReader w = print ''success'' (snd (read_pdf LayoutPDFReader '''' w))
   \<and> fst (script LayoutPDFReader w) = Inr ()
   \<and> stdout (snd (script LayoutPDFReader w)) = stdout w @ ''success'' @ [newline]"
proof -
  have "fst (read_pdf LayoutPDFReader '''' w) = Inr ''success''"
    using assms by (simp add: read_pdf_run)
  moreover have
    "script LayoutPDFReader w = print ''success'' (snd (read_pdf LayoutPDFReader '''' w))"
    using assms by (simp add: script_run read_pdf_run print_def)
  moreover have "fst (script LayoutPDFReader w) = Inr ()"
    using assms by (simp add: script_run)
  moreover have
    "stdout (snd (script LayoutPDFReader w)) = stdout w @ ''success'' @ [newline]"
    using assms by (simp add: script_run)
  ultimately show ?thesis by blast
qed

theorem script_prints_success_witness:
  "reader_ok llmsherpa_api_url = Inr (Reader llmsherpa_api_url)
   \<and> fst (script reader_ok fresh) = Inr ()
   \<and> stdout (snd (script reader_ok fresh)) = ''success'' @ [CHR 0x0A]"
proof -
  have ok: "reader_ok llmsherpa_api_url = Inr (Reader llmsherpa_api_url)"
    by (simp add: reader_ok_def)
  note run = script_prints_success [where LayoutPDFReader = reader_ok and w = fresh, OF ok]
  have empty: "stdout fresh = []"
    by (simp add: fresh_def)
  from run have "fst (script reader_ok fresh) = Inr ()"
    by blast
  moreover from run have
    "stdout (snd (script reader_ok fresh)) = stdout fresh @ ''success'' @ [newline]"
    by blast
  then have "stdout (snd (script reader_ok fresh)) = ''success'' @ [CHR 0x0A]"
    by (simp add: empty newline_def)
  ultimately show ?thesis
    using ok by blast
qed

subsection \<open>\<^verbatim>\<open>read_pdf\<close>: the parameter \<open>path\<close>\<close>

text \<open>
  C4 says that \<open>path\<close> is passed to the constructor of the client and is unused
  afterwards. The constructor is called with the local \<^verbatim>\<open>llmsherpa_api_url\<close>, not with
  \<open>path\<close>: for the path \<^verbatim>\<open>/tmp/any.pdf\<close> no constructor call has that argument.
\<close>

theorem path_passed_to_constructor_counterexample:
  "Construct ''/tmp/any.pdf'' \<notin> set (performed (read_pdf reader_ok ''/tmp/any.pdf'') fresh)"
  by (simp add: performed_def read_pdf_run fresh_def llmsherpa_api_url_def)

text \<open>
  C4, as amended: in \<^verbatim>\<open>read_pdf\<close> the constructor of the client is passed the fixed URL,
  whatever \<open>path\<close> is, and \<open>path\<close> is not used at all: the function is the same
  computation for any two paths.
\<close>

theorem read_pdf_path_unused:
  "performed (read_pdf LayoutPDFReader p) w = [Construct llmsherpa_api_url]
   \<and> read_pdf LayoutPDFReader p = read_pdf LayoutPDFReader q"
proof
  show "performed (read_pdf LayoutPDFReader p) w = [Construct llmsherpa_api_url]"
    by (simp add: performed_def read_pdf_run)
  show "read_pdf LayoutPDFReader p = read_pdf LayoutPDFReader q"
    by (simp add: read_pdf_def)
qed

text \<open>
  C5: the result of \<^verbatim>\<open>read_pdf\<close> does not depend on its argument: for any two strings
  \<open>p1\<close> and \<open>p2\<close>, \<^verbatim>\<open>read_pdf(p1)\<close> and \<^verbatim>\<open>read_pdf(p2)\<close> have the same outcome
  (the same value, or the same exception) and leave the same world.
\<close>

theorem read_pdf_ignores_path:
  "read_pdf LayoutPDFReader p1 w = read_pdf LayoutPDFReader p2 w"
  by (simp add: read_pdf_run)

subsection \<open>\<^verbatim>\<open>read_pdf\<close>: effects\<close>

text \<open>
  C6: for every input string, the only external interaction of \<^verbatim>\<open>read_pdf\<close> is the
  construction of the client, with exactly the URL
  \<^verbatim>\<open>https://readers.llmsherpa.com/api/document/developer/parseDocument?renderFormat=all\<close>;
  the client's read operation, which is what would contact the service, is never invoked,
  and nothing is written to standard output. What the constructor does inside the library
  is not part of the script.
\<close>

theorem read_pdf_only_constructs_client:
  "performed (read_pdf LayoutPDFReader p) w =
     [Construct
        ''https://readers.llmsherpa.com/api/document/developer/parseDocument?renderFormat=all'']
   \<and> Read_pdf u \<notin> set (performed (read_pdf LayoutPDFReader p) w)
   \<and> stdout (snd (read_pdf LayoutPDFReader p w)) = stdout w"
  by (simp add: performed_def read_pdf_run llmsherpa_api_url_def)

subsection \<open>\<^verbatim>\<open>read_pdf\<close>: failure\<close>

text \<open>
  C7 says that \<^verbatim>\<open>read_pdf\<close> cannot fail, for every string input, because no operation
  that could fail is executed. Line 6 executes one: the call of the constructor, with no
  handler around it. With a constructor that raises, \<^verbatim>\<open>read_pdf("x.pdf")\<close> raises.
\<close>

theorem read_pdf_cannot_fail_counterexample:
  "fst (read_pdf reader_raises ''x.pdf'' fresh) = Inl (ValueError llmsherpa_api_url)"
  by (simp add: read_pdf_run reader_raises_def)

text \<open>
  C7, as amended: the call of the constructor on the fixed URL is the one operation
  \<^verbatim>\<open>read_pdf\<close> executes that could fail. For every string input the outcome of
  \<^verbatim>\<open>read_pdf\<close> is the outcome of that call, an object being replaced by \<^verbatim>\<open>"success"\<close>:
  it returns exactly when the constructor returns, and whether it returns depends neither
  on the input nor on the world it is called in.
\<close>

theorem read_pdf_fails_only_through_constructor:
  "fst (read_pdf LayoutPDFReader p w) =
     map_sum id (\<lambda>pdf_reader. ''success'') (LayoutPDFReader llmsherpa_api_url)
   \<and> (\<exists>v. fst (read_pdf LayoutPDFReader p w) = Inr v) =
       (\<exists>pdf_reader. LayoutPDFReader llmsherpa_api_url = Inr pdf_reader)
   \<and> (\<exists>v. fst (read_pdf LayoutPDFReader p w) = Inr v) =
       (\<exists>v. fst (read_pdf LayoutPDFReader q w') = Inr v)"
proof -
  have outcome: "fst (read_pdf LayoutPDFReader p w) =
      map_sum id (\<lambda>pdf_reader. ''success'') (LayoutPDFReader llmsherpa_api_url)"
    for p w
    by (cases "LayoutPDFReader llmsherpa_api_url") (simp_all add: read_pdf_run)
  have returns: "(\<exists>v. fst (read_pdf LayoutPDFReader p w) = Inr v) =
      (\<exists>pdf_reader. LayoutPDFReader llmsherpa_api_url = Inr pdf_reader)"
    for p w
    by (cases "LayoutPDFReader llmsherpa_api_url") (simp_all add: outcome)
  show ?thesis
    using outcome [of p w] returns [of p w] returns [of q w'] by blast
qed

theorem read_pdf_fails_only_through_constructor_witness:
  "fst (read_pdf reader_ok ''x.pdf'' fresh) = Inr ''success''
   \<and> (\<exists>v. fst (read_pdf reader_ok ''x.pdf'' fresh) = Inr v)
   \<and> fst (read_pdf reader_raises ''y.pdf'' fresh) = Inl (ValueError llmsherpa_api_url)"
proof -
  have ok: "reader_ok llmsherpa_api_url = Inr (Reader llmsherpa_api_url)"
    by (simp add: reader_ok_def)
  have bad: "reader_raises llmsherpa_api_url = Inl (ValueError llmsherpa_api_url)"
    by (simp add: reader_raises_def)
  from read_pdf_fails_only_through_constructor
    [where LayoutPDFReader = reader_ok and p = "''x.pdf''" and w = fresh]
  have "fst (read_pdf reader_ok ''x.pdf'' fresh) = Inr ''success''"
    by (simp add: ok)
  moreover from read_pdf_fails_only_through_constructor
    [where LayoutPDFReader = reader_raises and p = "''y.pdf''" and w = fresh]
  have "fst (read_pdf reader_raises ''y.pdf'' fresh) = Inl (ValueError llmsherpa_api_url)"
    by (simp add: bad)
  ultimately show ?thesis by simp
qed

text \<open>
  C8: if the constructor of the client fails, the failure goes unhandled through
  \<^verbatim>\<open>read_pdf\<close> to the top of the script and ends it: \<^verbatim>\<open>read_pdf\<close> raises an exception
  exactly when the constructor raises it, so does the script, and then nothing is printed.
  There is no other failure.
\<close>

theorem constructor_failure_propagates:
  "(fst (read_pdf LayoutPDFReader p w) = Inl e) = (LayoutPDFReader llmsherpa_api_url = Inl e)
   \<and> (fst (script LayoutPDFReader w) = Inl e) = (LayoutPDFReader llmsherpa_api_url = Inl e)
   \<and> (LayoutPDFReader llmsherpa_api_url = Inl e \<longrightarrow>
        stdout (snd (script LayoutPDFReader w)) = stdout w)"
  by (simp add: read_pdf_run script_run split: sum.split)

theorem constructor_failure_propagates_witness:
  "reader_raises llmsherpa_api_url = Inl (ValueError llmsherpa_api_url)
   \<and> fst (read_pdf reader_raises '''' fresh) = Inl (ValueError llmsherpa_api_url)
   \<and> fst (script reader_raises fresh) = Inl (ValueError llmsherpa_api_url)
   \<and> stdout (snd (script reader_raises fresh)) = []"
proof -
  have bad: "reader_raises llmsherpa_api_url = Inl (ValueError llmsherpa_api_url)"
    by (simp add: reader_raises_def)
  show ?thesis
    using bad constructor_failure_propagates
      [of reader_raises "''''" fresh "ValueError llmsherpa_api_url"]
    by (simp add: fresh_def)
qed

subsection \<open>\<^verbatim>\<open>greetings\<close>: purity and injectivity\<close>

text \<open>
  C9: \<^verbatim>\<open>greetings\<close> is pure and total: for every string it returns a value, raises
  nothing, leaves the world as it was and calls nothing outside; the value is the same in
  whatever world the call is made, so two calls with the same argument return the same
  string.
\<close>

theorem greetings_pure_total:
  "(\<exists>v. greetings s w = (Inr v, w))
   \<and> fst (greetings s w) = fst (greetings s w')
   \<and> performed (greetings s) w = []"
  by (simp add: greetings_run performed_def)

text \<open>
  C10: \<^verbatim>\<open>greetings\<close> is injective: two distinct strings never get the same greeting.
\<close>

theorem greetings_injective:
  assumes "s1 \<noteq> s2"
  shows "fst (greetings s1 w) \<noteq> fst (greetings s2 w')"
  using assms by (simp add: greetings_run)

theorem greetings_injective_witness:
  "''Ann'' \<noteq> ''Bob'' \<and> fst (greetings ''Ann'' fresh) \<noteq> fst (greetings ''Bob'' fresh)"
proof -
  have ne: "''Ann'' \<noteq> ''Bob''" by simp
  show ?thesis
    using ne greetings_injective [OF ne, of fresh fresh]
    by simp
qed

end
